theory Spec2Isabelle
  imports Complex_Main
begin

section \<open>The law-of-the-wall notebook\<close>

text \<open>
  The repository is one Jupyter notebook, \<^verbatim>\<open>law-of-the-wall.ipynb\<close>. Its code cells
  import five names, build a data frame \<^verbatim>\<open>df\<close> of four observations, and define
  the function \<^verbatim>\<open>loglayer\<close>. The cells of exercises (a), (c), (d) and (e) are empty:
  in particular no cell calls \<^verbatim>\<open>curve_fit\<close>, which is only imported.
\<close>

subsection \<open>Python values, exceptions and namespaces\<close>

text \<open>
  The values the notebook handles. A Python float is modelled by a real number; no
  code of the notebook performs arithmetic, so nothing below depends on rounding.
\<close>

datatype pyval =
    PyNone
  | PyInt int
  | PyFloat real
  | PyArray "pyval list"
  | PyFrame "(string \<times> pyval) list"
  | PyModule string
  | PyFunction string

datatype pyerror =
    NameError string

text \<open>
  The module-level namespace of the notebook's kernel: an association list in which
  the most recent binding of a name comes first.
\<close>

type_synonym namespace = "(string \<times> pyval) list"

definition bind_name :: "string \<Rightarrow> pyval \<Rightarrow> namespace \<Rightarrow> namespace" where
  "bind_name x v g = (x, v) # g"

text \<open>
  Reading a name that is neither a parameter nor assigned in the function body is a
  global read: the value bound in the namespace, or \<^verbatim>\<open>NameError\<close> when there is none.
  Python searches the builtins after the module's own names; a namespace here holds
  only the names that the notebook binds, and no builtin is named \<^verbatim>\<open>u\<close>.
\<close>

definition load_global :: "namespace \<Rightarrow> string \<Rightarrow> pyerror + pyval" where
  "load_global g x =
     (case map_of g x of
        None \<Rightarrow> Inl (NameError x)
      | Some v \<Rightarrow> Inr v)"

subsection \<open>The code cells\<close>

text \<open>
  Lines 46-50:
  \<^verbatim>\<open>import numpy as np\<close>, \<^verbatim>\<open>import matplotlib.pyplot as plt\<close>,
  \<^verbatim>\<open>import pandas as pd\<close>, \<^verbatim>\<open>from scipy import stats\<close>,
  \<^verbatim>\<open>from scipy.optimize import curve_fit\<close>.
\<close>

definition cell_imports :: "namespace \<Rightarrow> namespace" where
  "cell_imports g =
     bind_name ''curve_fit'' (PyFunction ''scipy.optimize.curve_fit'')
    (bind_name ''stats'' (PyModule ''scipy.stats'')
    (bind_name ''pd'' (PyModule ''pandas'')
    (bind_name ''plt'' (PyModule ''matplotlib.pyplot'')
    (bind_name ''np'' (PyModule ''numpy'') g))))"

text \<open>
  Lines 66-68: the data frame with the columns \<^verbatim>\<open>z(cm)\<close> and \<^verbatim>\<open>u(cm/s)\<close>.
\<close>

definition z_cm :: "pyval list" where
  "z_cm = [PyInt 22, PyInt 55, PyInt 89, PyInt 123]"

definition u_cm_s :: "pyval list" where
  "u_cm_s = [PyFloat 41.8, PyFloat 50.4, PyFloat 55.0, PyFloat 58.4]"

definition cell_data :: "namespace \<Rightarrow> namespace" where
  "cell_data g =
     bind_name ''df''
       (PyFrame [(''z(cm)'', PyArray z_cm), (''u(cm/s)'', PyArray u_cm_s)]) g"

text \<open>
  Lines 172-194: the \<^verbatim>\<open>def\<close> statement binds the name \<^verbatim>\<open>loglayer\<close>.
\<close>

definition cell_loglayer :: "namespace \<Rightarrow> namespace" where
  "cell_loglayer g = bind_name ''loglayer'' (PyFunction ''loglayer'') g"

text \<open>
  The namespace after the code cells have run, top to bottom, in a fresh kernel.
  The four empty cells bind no name, and the cell that displays \<^verbatim>\<open>df\<close> binds only
  the output history names of IPython (\<^verbatim>\<open>_\<close>, \<^verbatim>\<open>_8\<close>), which are left out.
\<close>

definition notebook_globals :: namespace where
  "notebook_globals = cell_loglayer (cell_data (cell_imports []))"

subsection \<open>The function \<^verbatim>\<open>loglayer\<close>\<close>

text \<open>
  Lines 172-194. The body is a docstring, the comment \<^verbatim>\<open># insert code here\<close> and
  \<^verbatim>\<open>return u\<close>. The parameters \<^verbatim>\<open>z\<close>, \<^verbatim>\<open>ustar\<close> and \<^verbatim>\<open>zo\<close> are bound
  by the call and never read. The name \<^verbatim>\<open>u\<close> is not a parameter and the body does not
  assign it, so \<^verbatim>\<open>return u\<close> reads it from the namespace \<open>g\<close> of the module.
\<close>

definition loglayer :: "namespace \<Rightarrow> pyval \<Rightarrow> pyval \<Rightarrow> pyval \<Rightarrow> pyerror + pyval" where
  "loglayer g z ustar zo = load_global g ''u''"

subsection \<open>The documented model\<close>

text \<open>
  The equation that the notebook's first cell (line 11) gives for the law of the wall,
  \<open>u = (u\<^sub>* / 0.41) ln (z / z\<^sub>o)\<close>, and that the docstring of \<^verbatim>\<open>loglayer\<close> promises
  to return. It is what the code is compared with, not a translation of the code.
\<close>

definition kappa :: real where
  "kappa = 0.41"

definition law_of_the_wall :: "real \<Rightarrow> real \<Rightarrow> real \<Rightarrow> real" where
  "law_of_the_wall z ustar zo = (ustar / kappa) * ln (z / zo)"

text \<open>
  A scalar that is at most zero, or an array with such an element.
\<close>

fun nonpositive :: "pyval \<Rightarrow> bool" where
  "nonpositive (PyInt i) = (i \<le> 0)"
| "nonpositive (PyFloat r) = (r \<le> 0)"
| "nonpositive (PyArray vs) = (\<exists>v \<in> set vs. nonpositive v)"
| "nonpositive v = False"

section \<open>Properties\<close>

subsection \<open>The namespace of the notebook\<close>

lemma notebook_globals_names:
  "map fst notebook_globals = [''loglayer'', ''df'', ''curve_fit'', ''stats'', ''pd'', ''plt'', ''np'']"
  by (simp add: notebook_globals_def cell_loglayer_def cell_data_def cell_imports_def
      bind_name_def)

lemma u_unbound: "map_of notebook_globals ''u'' = None"
  by (simp add: notebook_globals_def cell_loglayer_def cell_data_def cell_imports_def
      bind_name_def)

lemma loglayer_reads_u: "loglayer g z ustar zo = load_global g ''u''"
  by (simp add: loglayer_def)

lemma loglayer_ignores_arguments: "loglayer g z ustar zo = loglayer g z' ustar' zo'"
  by (simp add: loglayer_def)

text \<open>
  In any namespace the call fails exactly when \<^verbatim>\<open>u\<close> is unbound; where a global
  \<^verbatim>\<open>u\<close> exists, its value comes back whatever the arguments are.
\<close>

lemma loglayer_fails_iff:
  "loglayer g z ustar zo = Inl (NameError ''u'') \<longleftrightarrow> ''u'' \<notin> fst ` set g"
proof (cases "map_of g ''u''")
  case None
  then have "''u'' \<notin> fst ` set g"
    by (simp add: map_of_eq_None_iff)
  with None show ?thesis
    by (simp add: loglayer_def load_global_def)
next
  case (Some v)
  then have "(''u'', v) \<in> set g"
    by (rule map_of_SomeD)
  then have "''u'' \<in> fst ` set g"
    by force
  with Some show ?thesis
    by (simp add: loglayer_def load_global_def)
qed

lemma loglayer_returns_global:
  assumes "map_of g ''u'' = Some v"
  shows "loglayer g z ustar zo = Inr v"
  using assms by (simp add: loglayer_def load_global_def)

subsection \<open>The documented equation\<close>

lemma law_of_the_wall_zero_at_zo:
  assumes "0 < zo"
  shows "law_of_the_wall zo ustar zo = 0"
  using assms by (simp add: law_of_the_wall_def)

lemma law_of_the_wall_increasing:
  assumes "0 < ustar" and "0 < zo" and "0 < z1" and "z1 < z2"
  shows "law_of_the_wall z1 ustar zo < law_of_the_wall z2 ustar zo"
proof -
  have "z1 / zo < z2 / zo"
    using assms by (simp add: divide_strict_right_mono)
  moreover have "0 < z1 / zo"
    using assms by simp
  ultimately have less: "ln (z1 / zo) < ln (z2 / zo)"
    by simp
  have pos: "0 < ustar / kappa"
    using assms by (simp add: kappa_def)
  have "(ustar / kappa) * ln (z1 / zo) < (ustar / kappa) * ln (z2 / zo)"
    by (rule mult_strict_left_mono [OF less pos])
  then show ?thesis
    unfolding law_of_the_wall_def .
qed

lemma law_of_the_wall_linear:
  "law_of_the_wall z (a * s + b * t) zo =
     a * law_of_the_wall z s zo + b * law_of_the_wall z t zo"
  by (simp add: law_of_the_wall_def algebra_simps add_divide_distrib)

subsection \<open>What the shipped \<^verbatim>\<open>loglayer\<close> does\<close>

text \<open>
  Claim C10. As shipped, the body of \<^verbatim>\<open>loglayer\<close> never assigns the variable
  \<^verbatim>\<open>u\<close> that it returns. In the namespace of the notebook every call, whatever the
  arguments \<open>z\<close>, \<open>ustar\<close> and \<open>zo\<close>, raises \<^verbatim>\<open>NameError\<close> for the name \<^verbatim>\<open>u\<close>
  and returns no value.
\<close>

theorem loglayer_raises_NameError:
  "loglayer notebook_globals z ustar zo = Inl (NameError ''u'') \<and>
   (\<nexists>v. loglayer notebook_globals z ustar zo = Inr v)"
  by (simp add: loglayer_def load_global_def u_unbound)

text \<open>
  Claim C5. For every input in which \<open>z\<close> or \<open>zo\<close> is not positive (a scalar at most
  zero, or an array with such an element), evaluating the model fails: the call ends
  in an exception and yields no velocity value.
\<close>

theorem loglayer_nonpositive_fails:
  assumes "nonpositive z \<or> nonpositive zo"
  shows "(\<exists>e. loglayer notebook_globals z ustar zo = Inl e) \<and>
         (\<forall>v. loglayer notebook_globals z ustar zo \<noteq> Inr v)"
  by (simp add: loglayer_def load_global_def u_unbound)

theorem loglayer_nonpositive_fails_witness:
  "(nonpositive (PyArray [PyInt 22, PyInt 0]) \<or> nonpositive (PyFloat (- 0.3))) \<and>
   (\<exists>e. loglayer notebook_globals (PyArray [PyInt 22, PyInt 0]) (PyFloat 3.98) (PyFloat (- 0.3)) = Inl e) \<and>
   (\<forall>v. loglayer notebook_globals (PyArray [PyInt 22, PyInt 0]) (PyFloat 3.98) (PyFloat (- 0.3)) \<noteq> Inr v)"
proof -
  have h: "nonpositive (PyArray [PyInt 22, PyInt 0]) \<or> nonpositive (PyFloat (- 0.3))"
    by simp
  show ?thesis
    using h loglayer_nonpositive_fails [OF h, of "PyFloat 3.98"] by simp
qed

subsection \<open>Where the shipped \<^verbatim>\<open>loglayer\<close> departs from the documented model\<close>

text \<open>
  Claim C1. The documented model returns \<open>(ustar / kappa) * ln (z / zo)\<close> with
  \<open>kappa = 0.41\<close>. At \<open>z = 22\<close>, \<open>ustar = 3.98\<close>, \<open>zo = 0.3\<close> the shipped function
  raises \<^verbatim>\<open>NameError\<close> instead of returning that velocity.
\<close>

theorem loglayer_misses_law_of_the_wall:
  "loglayer notebook_globals (PyFloat 22) (PyFloat 3.98) (PyFloat 0.3) = Inl (NameError ''u'') \<and>
   loglayer notebook_globals (PyFloat 22) (PyFloat 3.98) (PyFloat 0.3)
     \<noteq> Inr (PyFloat (law_of_the_wall 22 3.98 0.3))"
  by (simp add: loglayer_def load_global_def u_unbound)

text \<open>
  Claim C2. The documented model is zero at the roughness length, \<open>z = zo\<close>. At
  \<open>z = zo = 0.3\<close>, \<open>ustar = 3.98\<close> the shipped function raises \<^verbatim>\<open>NameError\<close>
  instead of returning zero, as a float or as an integer.
\<close>

theorem loglayer_at_roughness_length_fails:
  "loglayer notebook_globals (PyFloat 0.3) (PyFloat 3.98) (PyFloat 0.3) = Inl (NameError ''u'') \<and>
   loglayer notebook_globals (PyFloat 0.3) (PyFloat 3.98) (PyFloat 0.3) \<noteq> Inr (PyFloat 0) \<and>
   loglayer notebook_globals (PyFloat 0.3) (PyFloat 3.98) (PyFloat 0.3) \<noteq> Inr (PyInt 0)"
  by (simp add: loglayer_def load_global_def u_unbound)

text \<open>
  Claim C3. The documented model increases with \<open>z\<close> and is linear in \<open>ustar\<close>. With
  \<open>ustar = 3.98\<close> and \<open>zo = 0.3\<close> the shipped function raises \<^verbatim>\<open>NameError\<close> at the
  heights 22 and 55, so it returns no two velocities of which the second is the larger;
  and at \<open>ustar = 2 * 3.98\<close> it returns no velocity that is twice the one at \<open>3.98\<close>.
\<close>

theorem loglayer_neither_monotone_nor_linear:
  "loglayer notebook_globals (PyFloat 22) (PyFloat 3.98) (PyFloat 0.3) = Inl (NameError ''u'') \<and>
   loglayer notebook_globals (PyFloat 55) (PyFloat 3.98) (PyFloat 0.3) = Inl (NameError ''u'') \<and>
   loglayer notebook_globals (PyFloat 22) (PyFloat (2 * 3.98)) (PyFloat 0.3) = Inl (NameError ''u'') \<and>
   (\<nexists>v1 v2. loglayer notebook_globals (PyFloat 22) (PyFloat 3.98) (PyFloat 0.3) = Inr (PyFloat v1) \<and>
             loglayer notebook_globals (PyFloat 55) (PyFloat 3.98) (PyFloat 0.3) = Inr (PyFloat v2) \<and>
             v1 < v2) \<and>
   (\<nexists>v. loglayer notebook_globals (PyFloat 22) (PyFloat 3.98) (PyFloat 0.3) = Inr (PyFloat v) \<and>
          loglayer notebook_globals (PyFloat 22) (PyFloat (2 * 3.98)) (PyFloat 0.3) = Inr (PyFloat (2 * v)))"
  by (simp add: loglayer_def load_global_def u_unbound)

text \<open>
  Claim C4. The documented model returns a velocity of the shape of \<open>z\<close>. For the
  four observed heights as an array, and for the scalar height 22, the shipped function
  raises \<^verbatim>\<open>NameError\<close>: it returns neither an array of four velocities nor a scalar.
\<close>

theorem loglayer_returns_no_shape:
  "loglayer notebook_globals (PyArray z_cm) (PyFloat 3.98) (PyFloat 0.3) = Inl (NameError ''u'') \<and>
   (\<nexists>vs. loglayer notebook_globals (PyArray z_cm) (PyFloat 3.98) (PyFloat 0.3) = Inr (PyArray vs) \<and>
         length vs = length z_cm) \<and>
   loglayer notebook_globals (PyFloat 22) (PyFloat 3.98) (PyFloat 0.3) = Inl (NameError ''u'') \<and>
   (\<nexists>v. loglayer notebook_globals (PyFloat 22) (PyFloat 3.98) (PyFloat 0.3) = Inr (PyFloat v))"
  by (simp add: loglayer_def load_global_def u_unbound)

end
